theory Spec2Isabelle
  imports Complex_Main "HOL-Library.Char_ord" "HOL-Library.List_Lexorder"
    "HOL-Library.Product_Lexorder"
begin

section \<open>The shipments table\<close>

text \<open>
  The dashboard script \<^verbatim>\<open>asst4.py\<close> reads \<^verbatim>\<open>shipments.csv\<close> into a pandas data frame.
  A data frame is modelled as the list of its rows, a row as a record with one field per
  column the script reads or derives. Every cell of a frame may be null (an empty CSV field
  is read as NaN, an unparsed timestamp as NaT), so every column is an \<open>option\<close>:
  \<open>None\<close> is the null cell.

  Identifiers, destinations and statuses are strings. A timestamp is its number of
  nanoseconds since the epoch, a date its number of days since the epoch. The float64
  numbers of the script (coordinates, percentages, seconds) are modelled by exact
  rationals.
\<close>

record shipment =
  driver_id :: "string option"
  vehicle_id :: "string option"
  route_id :: "string option"
  destination :: "string option"
  status :: "string option"
  pickup_time :: "int option"
  delivery_time :: "int option"
  delivery_date :: "int option"
  dest_lat :: "rat option"
  dest_lon :: "rat option"

type_synonym shipments = "shipment list"

section \<open>Enrichment\<close>

text \<open>
  \<^verbatim>\<open>if "delivery_date" not in shipments_df.columns:
      shipments_df["delivery_date"] = shipments_df["delivery_time"].dt.date\<close>
  The flag says whether the CSV file had a \<^verbatim>\<open>delivery_date\<close> column; when it had, the
  field of the rows read from it is kept.
\<close>

definition dt_date :: "int \<Rightarrow> int" where
  "dt_date t = t div (86400 * 1000000000)"

definition add_delivery_date :: "bool \<Rightarrow> shipments \<Rightarrow> shipments" where
  "add_delivery_date has_delivery_date df =
     (if \<not> has_delivery_date
      then map (\<lambda>r. r\<lparr>delivery_date := map_option dt_date (delivery_time r)\<rparr>) df
      else df)"

text \<open>The dictionary of dictionaries \<^verbatim>\<open>city_coords\<close>.\<close>

definition city_coords :: "string \<rightharpoonup> (string \<rightharpoonup> rat)" where
  "city_coords = map_of
     [(''New York'', map_of [(''lat'', 40.7128), (''lon'', - 74.0060)]),
      (''Los Angeles'', map_of [(''lat'', 34.0522), (''lon'', - 118.2437)]),
      (''Houston'', map_of [(''lat'', 29.7604), (''lon'', - 95.3698)]),
      (''Phoenix'', map_of [(''lat'', 33.4484), (''lon'', - 112.0740)]),
      (''Chicago'', map_of [(''lat'', 41.8781), (''lon'', - 87.6298)])]"

text \<open>
  \<^verbatim>\<open>lambda x: city_coords.get(x, {}).get(field)\<close>, applied by \<^verbatim>\<open>Series.map\<close> to every
  cell of the destination column, the null ones too: NaN is no key of the dictionary.
\<close>

definition coord_of :: "string \<Rightarrow> string option \<Rightarrow> rat option" where
  "coord_of field x =
     (case x of
        None \<Rightarrow> None
      | Some c \<Rightarrow> (case city_coords c of None \<Rightarrow> Map.empty | Some d \<Rightarrow> d) field)"

definition add_dest_lat :: "shipments \<Rightarrow> shipments" where
  "add_dest_lat df = map (\<lambda>r. r\<lparr>dest_lat := coord_of ''lat'' (destination r)\<rparr>) df"

definition add_dest_lon :: "shipments \<Rightarrow> shipments" where
  "add_dest_lon df = map (\<lambda>r. r\<lparr>dest_lon := coord_of ''lon'' (destination r)\<rparr>) df"

definition enrich :: "bool \<Rightarrow> shipments \<Rightarrow> shipments" where
  "enrich has_delivery_date df =
     add_dest_lon (add_dest_lat (add_delivery_date has_delivery_date df))"

text \<open>
  \<^verbatim>\<open>missing_coords = shipments_df[shipments_df["dest_lat"].isna()]["destination"].unique()
  if len(missing_coords) > 0:
      st.warning(f"Missing coordinates for: {', '.join(missing_coords)}")\<close>
  \<^verbatim>\<open>Series.unique\<close> keeps the distinct values in the order of their first appearance, the
  null value among them; \<^verbatim>\<open>str.join\<close> raises \<^verbatim>\<open>TypeError\<close> on an item that is not a string,
  as NaN is. The result of the statement is the list of the warnings it has shown.
\<close>

datatype error = TypeError

fun unique :: "'a list \<Rightarrow> 'a list" where
  "unique [] = []"
| "unique (x # xs) = x # unique (filter (\<lambda>y. y \<noteq> x) xs)"

fun join :: "string \<Rightarrow> string list \<Rightarrow> string" where
  "join sep [] = []"
| "join sep [x] = x"
| "join sep (x # y # ys) = x @ sep @ join sep (y # ys)"

definition str_join :: "string \<Rightarrow> string option list \<Rightarrow> error + string" where
  "str_join sep xs = (case those xs of None \<Rightarrow> Inl TypeError | Some ys \<Rightarrow> Inr (join sep ys))"

definition missing_coords :: "shipments \<Rightarrow> string option list" where
  "missing_coords shipments_df =
     unique (map destination (filter (\<lambda>r. dest_lat r = None) shipments_df))"

definition warn_missing_coords :: "shipments \<Rightarrow> error + string list" where
  "warn_missing_coords shipments_df =
     (if length (missing_coords shipments_df) > 0
      then (case str_join '', '' (missing_coords shipments_df) of
              Inl e \<Rightarrow> Inl e
            | Inr names \<Rightarrow> Inr [''Missing coordinates for: '' @ names])
      else Inr [])"

section \<open>Sidebar and driver filter\<close>

text \<open>
  The driver select box offers \<^verbatim>\<open>"All"\<close> and the distinct cells of the driver column, so
  the selection is a cell: a string, or the null cell when some shipment has no driver.
  The grouping key is one of three column names, the map's incident type a string.
\<close>

definition driver_options :: "shipments \<Rightarrow> string option list" where
  "driver_options shipments_df = Some ''All'' # unique (map driver_id shipments_df)"

datatype breakdown_type = Driver_id | Vehicle_id | Route_id

fun column :: "breakdown_type \<Rightarrow> shipment \<Rightarrow> string option" where
  "column Driver_id r = driver_id r"
| "column Vehicle_id r = vehicle_id r"
| "column Route_id r = route_id r"

text \<open>
  \<^verbatim>\<open>filtered = shipments_df.copy()
  if selected_driver != "All":
      filtered = filtered[filtered["driver_id"] == selected_driver]\<close>
  A comparison with a null cell is false, on either side.
\<close>

definition filter_driver :: "string option \<Rightarrow> shipments \<Rightarrow> shipments" where
  "filter_driver selected_driver shipments_df =
     (if selected_driver \<noteq> Some ''All''
      then filter (\<lambda>r. driver_id r \<noteq> None \<and> driver_id r = selected_driver) shipments_df
      else shipments_df)"

section \<open>KPI metrics\<close>

definition with_status :: "string \<Rightarrow> shipments \<Rightarrow> shipments" where
  "with_status s filtered = filter (\<lambda>r. status r = Some s) filtered"

definition total_missing :: "shipments \<Rightarrow> nat" where
  "total_missing filtered = length (with_status ''Missing'' filtered)"

definition damaged_count :: "shipments \<Rightarrow> nat" where
  "damaged_count filtered = length (with_status ''Damaged'' filtered)"

definition missing_shipments :: "shipments \<Rightarrow> shipments" where
  "missing_shipments filtered = with_status ''Missing'' filtered"

text \<open>
  \<^verbatim>\<open>transit_times = missing_shipments["delivery_time"] - missing_shipments["pickup_time"]\<close>
  is null where either timestamp is; \<^verbatim>\<open>dt.total_seconds()\<close> divides the nanoseconds by
  \<open>10\<^sup>9\<close>; \<^verbatim>\<open>mean()\<close> skips the null cells and is null when nothing is left.
\<close>

definition transit_times :: "shipments \<Rightarrow> int option list" where
  "transit_times ms =
     map (\<lambda>r. case (delivery_time r, pickup_time r) of
                 (Some d, Some p) \<Rightarrow> Some (d - p)
               | _ \<Rightarrow> None) ms"

definition total_seconds :: "int option list \<Rightarrow> rat option list" where
  "total_seconds ts = map (map_option (\<lambda>t. of_int t / 1000000000)) ts"

definition mean :: "rat option list \<Rightarrow> rat option" where
  "mean xs =
     (case List.map_filter id xs of
        [] \<Rightarrow> None
      | y # ys \<Rightarrow> Some (sum_list (y # ys) / of_nat (length (y # ys))))"

text \<open>Rounding to the nearest integer, a tie to the even one (\<^verbatim>\<open>rint\<close>).\<close>

definition rint :: "rat \<Rightarrow> int" where
  "rint x =
     (let f = \<lfloor>x\<rfloor>; d = x - of_int f
      in if d < 1 / 2 then f else if 1 / 2 < d then f + 1 else if even f then f else f + 1)"

fun show_nat :: "nat \<Rightarrow> string" where
  "show_nat n =
     (if n < 10 then [char_of (48 + n)] else show_nat (n div 10) @ [char_of (48 + n mod 10)])"

text \<open>The format \<^verbatim>\<open>{:.1f}\<close>: one digit after the point, the sign of a negative number kept.\<close>

definition format_1f :: "rat \<Rightarrow> string" where
  "format_1f x =
     (let t = nat (rint (\<bar>x\<bar> * 10))
      in (if x < 0 then ''-'' else []) @ show_nat (t div 10) @ ''.'' @ show_nat (t mod 10))"

definition avg_transit_days :: "shipments \<Rightarrow> rat option" where
  "avg_transit_days ms = map_option (\<lambda>m. m / 86400) (mean (total_seconds (transit_times ms)))"

definition avg_transit_text :: "shipments \<Rightarrow> string" where
  "avg_transit_text filtered =
     (let ms = missing_shipments filtered
      in if ms \<noteq> [] \<and> list_all (\<lambda>r. pickup_time r \<noteq> None) ms
            \<and> list_all (\<lambda>r. delivery_time r \<noteq> None) ms
         then (case avg_transit_days ms of
                 Some d \<Rightarrow> format_1f d @ '' days''
               | None \<Rightarrow> ''nan days'')
         else ''N/A'')"

section \<open>Grouping and merging\<close>

text \<open>
  \<^verbatim>\<open>groupby(key).size().reset_index(name=...)\<close>: one row for each distinct value of the
  key, in ascending order, with the number of rows that have it. Rows whose key is null
  belong to no group (\<^verbatim>\<open>dropna=True\<close> is the default). A key of several columns is null
  when one of them is.
\<close>

definition group_keys :: "('r \<Rightarrow> 'k::linorder option) \<Rightarrow> 'r list \<Rightarrow> 'k list" where
  "group_keys key df = sort (remdups (List.map_filter key df))"

definition group_rows :: "('r \<Rightarrow> 'k option) \<Rightarrow> 'k \<Rightarrow> 'r list \<Rightarrow> 'r list" where
  "group_rows key k df = filter (\<lambda>r. key r = Some k) df"

definition groupby_size :: "('r \<Rightarrow> 'k::linorder option) \<Rightarrow> 'r list \<Rightarrow> ('k \<times> nat) list" where
  "groupby_size key df = map (\<lambda>k. (k, length (group_rows key k df))) (group_keys key df)"

definition both_keys :: "('r \<Rightarrow> 'a option) \<Rightarrow> ('r \<Rightarrow> 'b option) \<Rightarrow> 'r \<Rightarrow> ('a \<times> 'b) option" where
  "both_keys k1 k2 r =
     (case (k1 r, k2 r) of (Some a, Some b) \<Rightarrow> Some (a, b) | _ \<Rightarrow> None)"

text \<open>The aggregation \<^verbatim>\<open>"first"\<close>: the first cell of the group that is not null.\<close>

definition first_valid :: "'a option list \<Rightarrow> 'a option" where
  "first_valid xs = (case List.map_filter id xs of [] \<Rightarrow> None | y # ys \<Rightarrow> Some y)"

section \<open>Bar chart: percentage of Missing and Damaged by group\<close>

definition total_by_group :: "breakdown_type \<Rightarrow> shipments \<Rightarrow> (string \<times> nat) list" where
  "total_by_group breakdown filtered = groupby_size (column breakdown) filtered"

text \<open>\<^verbatim>\<open>filtered[filtered["status"].isin(["Missing", "Damaged"])]\<close>\<close>

definition incidents :: "shipments \<Rightarrow> shipments" where
  "incidents filtered = filter (\<lambda>r. status r \<in> {Some ''Missing'', Some ''Damaged''}) filtered"

definition incident_by_group ::
  "breakdown_type \<Rightarrow> shipments \<Rightarrow> ((string \<times> string) \<times> nat) list" where
  "incident_by_group breakdown filtered =
     groupby_size (both_keys (column breakdown) status) (incidents filtered)"

record bar_row =
  bar_group :: string
  bar_status :: string
  bar_count :: nat
  bar_total :: nat
  percent :: rat

text \<open>
  \<^verbatim>\<open>pd.merge(incident_by_group, total_by_group, on=breakdown_type)\<close> is an inner join: the
  rows of the left table in their order, each with every row of the right table that has
  its key, and dropped when there is none.
\<close>

definition merge_inner ::
  "((string \<times> string) \<times> nat) list \<Rightarrow> (string \<times> nat) list \<Rightarrow> (string \<times> string \<times> nat \<times> nat) list"
  where
  "merge_inner left right =
     concat (map (\<lambda>((k, s), c). map (\<lambda>(k', t). (k, s, c, t)) (filter (\<lambda>(k', t). k' = k) right))
       left)"

text \<open>\<^verbatim>\<open>Series.round(2)\<close>: scale by 100, round to the nearest integer, scale back.\<close>

definition round2 :: "rat \<Rightarrow> rat" where
  "round2 x = of_int (rint (x * 100)) / 100"

definition add_percent :: "(string \<times> string \<times> nat \<times> nat) \<Rightarrow> bar_row" where
  "add_percent row =
     (case row of (k, s, c, t) \<Rightarrow>
        \<lparr>bar_group = k, bar_status = s, bar_count = c, bar_total = t,
         percent = round2 (of_nat c / of_nat t * 100)\<rparr>)"

definition merged :: "breakdown_type \<Rightarrow> shipments \<Rightarrow> bar_row list" where
  "merged breakdown filtered =
     map add_percent
       (merge_inner (incident_by_group breakdown filtered) (total_by_group breakdown filtered))"

section \<open>Time trend\<close>

definition trend_data :: "shipments \<Rightarrow> (int \<times> nat) list" where
  "trend_data filtered = groupby_size delivery_date (with_status ''Missing'' filtered)"

section \<open>Map: percentage of incidents by destination\<close>

record total_row =
  t_destination :: string
  t_total :: nat
  t_lat :: "rat option"
  t_lon :: "rat option"

definition total_shipments :: "shipments \<Rightarrow> total_row list" where
  "total_shipments filtered_df =
     map (\<lambda>d. let g = group_rows destination d filtered_df
              in \<lparr>t_destination = d, t_total = length g,
                  t_lat = first_valid (map dest_lat g), t_lon = first_valid (map dest_lon g)\<rparr>)
       (group_keys destination filtered_df)"

definition status_shipments :: "shipments \<Rightarrow> string \<Rightarrow> (string \<times> nat) list" where
  "status_shipments filtered_df status_type =
     groupby_size destination (with_status status_type filtered_df)"

text \<open>
  \<^verbatim>\<open>pd.merge(total_shipments, status_shipments, on="destination", how="left")\<close>: every row
  of the left table, with each row of the right table that has its destination, or once
  with a null \<^verbatim>\<open>incident\<close> when there is none.
\<close>

definition merge_left :: "total_row list \<Rightarrow> (string \<times> nat) list \<Rightarrow> (total_row \<times> nat option) list"
  where
  "merge_left left right =
     concat (map (\<lambda>l. case filter (\<lambda>(d, n). d = t_destination l) right of
                         [] \<Rightarrow> [(l, None)]
                       | m # ms \<Rightarrow> map (\<lambda>(d, n). (l, Some n)) (m # ms)) left)"

text \<open>
  \<^verbatim>\<open>merged["incident"] = merged["incident"].fillna(0)\<close> and
  \<^verbatim>\<open>merged["percent_incident"] = (merged["incident"] / merged["total"] * 100).round(2)\<close>.
  The incident column of the left join is a float column.
\<close>

definition fillna :: "rat \<Rightarrow> nat option \<Rightarrow> rat" where
  "fillna v c = (case c of None \<Rightarrow> v | Some n \<Rightarrow> of_nat n)"

definition fill_incident :: "(total_row \<times> nat option) \<Rightarrow> (total_row \<times> rat)" where
  "fill_incident row = (case row of (l, c) \<Rightarrow> (l, fillna 0 c))"

record map_row =
  m_destination :: string
  m_total :: nat
  m_lat :: "rat option"
  m_lon :: "rat option"
  incident :: rat
  percent_incident :: rat

definition add_percent_incident :: "(total_row \<times> rat) \<Rightarrow> map_row" where
  "add_percent_incident row =
     (case row of (l, i) \<Rightarrow>
        \<lparr>m_destination = t_destination l, m_total = t_total l, m_lat = t_lat l, m_lon = t_lon l,
         incident = i, percent_incident = round2 (i / of_nat (t_total l) * 100)\<rparr>)"

text \<open>
  \<^verbatim>\<open>generate_percentage_map\<close> hands the merged table to \<^verbatim>\<open>px.scatter_mapbox\<close>, which
  draws one bubble for each of its rows at \<^verbatim>\<open>lat\<close>, \<^verbatim>\<open>lon\<close>; the table is the data of
  the map.
\<close>

definition generate_percentage_map :: "shipments \<Rightarrow> string \<Rightarrow> map_row list" where
  "generate_percentage_map filtered_df status_type =
     map add_percent_incident
       (map fill_incident
          (merge_left (total_shipments filtered_df) (status_shipments filtered_df status_type)))"

section \<open>The dashboard\<close>

text \<open>
  What the page shows below the sidebar: the three metrics and, for each chart, the table
  the plotting library is given. The pie chart reads the status column of \<^verbatim>\<open>filtered\<close>.
\<close>

record dashboard =
  metric_total_missing :: nat
  metric_avg_transit :: string
  metric_total_damaged :: nat
  status_fig :: "string option list"
  comparison_fig :: "bar_row list"
  trend_fig :: "(int \<times> nat) list"
  map_fig :: "map_row list"

definition render :: "breakdown_type \<Rightarrow> string \<Rightarrow> shipments \<Rightarrow> dashboard" where
  "render breakdown map_status_type filtered =
     \<lparr>metric_total_missing = total_missing filtered,
      metric_avg_transit = avg_transit_text filtered,
      metric_total_damaged = damaged_count filtered,
      status_fig = map status filtered,
      comparison_fig = merged breakdown filtered,
      trend_fig = trend_data filtered,
      map_fig = generate_percentage_map filtered map_status_type\<rparr>"

definition downstream ::
  "string option \<Rightarrow> breakdown_type \<Rightarrow> string \<Rightarrow> shipments \<Rightarrow> dashboard" where
  "downstream selected_driver breakdown map_status_type shipments_df =
     render breakdown map_status_type (filter_driver selected_driver shipments_df)"

text \<open>The sum of the counts of one status over the rows of the grouped incident table.\<close>

definition incident_sum :: "string \<Rightarrow> bar_row list \<Rightarrow> nat" where
  "incident_sum s tbl = sum_list (map bar_count (filter (\<lambda>row. bar_status row = s) tbl))"

section \<open>Data frames as objects\<close>

text \<open>
  Data frames are objects: a variable holds a reference, \<^verbatim>\<open>df[col] = ...\<close> changes the
  object in place, and every other operation of the script (\<^verbatim>\<open>copy\<close>, selection of rows
  by a mask, \<^verbatim>\<open>groupby\<close> with its aggregation, \<^verbatim>\<open>merge\<close>) builds a new object. The store
  is the list of the objects made so far, a reference an index into it.
\<close>

datatype frame =
    Shipments shipments
  | Sizes "(string \<times> nat) list"
  | Incidents "((string \<times> string) \<times> nat) list"
  | Joined "(string \<times> string \<times> nat \<times> nat) list"
  | Bars "bar_row list"
  | Trend "(int \<times> nat) list"
  | Totals "total_row list"
  | LeftJoined "(total_row \<times> nat option) list"
  | Filled "(total_row \<times> rat) list"
  | MapRows "map_row list"

type_synonym store = "frame list"

definition frame_at :: "store \<Rightarrow> nat \<Rightarrow> frame option" where
  "frame_at h a = (if a < length h then Some (h ! a) else None)"

definition new_frame :: "frame \<Rightarrow> store \<Rightarrow> nat \<times> store" where
  "new_frame f h = (length h, h @ [f])"

definition assign_column :: "(frame \<Rightarrow> frame option) \<Rightarrow> nat \<Rightarrow> store \<Rightarrow> store option" where
  "assign_column g a h =
     (case frame_at h a of
        None \<Rightarrow> None
      | Some f \<Rightarrow> (case g f of None \<Rightarrow> None | Some f' \<Rightarrow> Some (h[a := f'])))"

definition read_shipments :: "store \<Rightarrow> nat \<Rightarrow> shipments option" where
  "read_shipments h a = (case frame_at h a of Some (Shipments df) \<Rightarrow> Some df | _ \<Rightarrow> None)"

fun on_shipments :: "(shipments \<Rightarrow> shipments) \<Rightarrow> frame \<Rightarrow> frame option" where
  "on_shipments g (Shipments df) = Some (Shipments (g df))"
| "on_shipments g _ = None"

fun percent_column :: "frame \<Rightarrow> frame option" where
  "percent_column (Joined rows) = Some (Bars (map add_percent rows))"
| "percent_column _ = None"

fun incident_column :: "frame \<Rightarrow> frame option" where
  "incident_column (LeftJoined rows) = Some (Filled (map fill_incident rows))"
| "incident_column _ = None"

fun percent_incident_column :: "frame \<Rightarrow> frame option" where
  "percent_incident_column (Filled rows) = Some (MapRows (map add_percent_incident rows))"
| "percent_incident_column _ = None"

text \<open>
  Lines 6 to 24: the table read from the file is a new object, and the three derived
  columns are assigned to it in place.
\<close>

definition load_shipments :: "bool \<Rightarrow> shipments \<Rightarrow> store \<Rightarrow> (nat \<times> store) option" where
  "load_shipments has_delivery_date csv h0 =
     (case new_frame (Shipments csv) h0 of (shipments_df, h1) \<Rightarrow>
      case assign_column (on_shipments (add_delivery_date has_delivery_date)) shipments_df h1 of
        None \<Rightarrow> None
      | Some h2 \<Rightarrow>
      case assign_column (on_shipments add_dest_lat) shipments_df h2 of
        None \<Rightarrow> None
      | Some h3 \<Rightarrow>
      case assign_column (on_shipments add_dest_lon) shipments_df h3 of
        None \<Rightarrow> None
      | Some h4 \<Rightarrow> Some (shipments_df, h4))"

text \<open>
  Lines 38 to 40. \<^verbatim>\<open>filtered\<close> is bound to a copy, and then, when a driver is selected,
  to the new frame of the rows the mask keeps.
\<close>

definition bind_filtered :: "string option \<Rightarrow> nat \<Rightarrow> store \<Rightarrow> (nat \<times> store) option" where
  "bind_filtered selected_driver shipments_df h0 =
     (case frame_at h0 shipments_df of
        None \<Rightarrow> None
      | Some f \<Rightarrow>
      case new_frame f h0 of (filtered, h1) \<Rightarrow>
      if selected_driver \<noteq> Some ''All''
      then (case read_shipments h1 filtered of
              None \<Rightarrow> None
            | Some df \<Rightarrow>
                Some (new_frame
                  (Shipments (filter (\<lambda>r. driver_id r \<noteq> None \<and> driver_id r = selected_driver) df))
                  h1))
      else Some (filtered, h1))"

text \<open>
  Lines 66 to 73: three new frames, and the percent column assigned to the last of them.
\<close>

definition bar_chart :: "breakdown_type \<Rightarrow> nat \<Rightarrow> store \<Rightarrow> (nat \<times> store) option" where
  "bar_chart breakdown filtered h0 =
     (case read_shipments h0 filtered of
        None \<Rightarrow> None
      | Some df \<Rightarrow>
      case new_frame (Sizes (total_by_group breakdown df)) h0 of (total_by_group_ref, h1) \<Rightarrow>
      case new_frame (Incidents (incident_by_group breakdown df)) h1 of (incident_by_group_ref, h2) \<Rightarrow>
      case new_frame
             (Joined (merge_inner (incident_by_group breakdown df) (total_by_group breakdown df)))
             h2 of (merged_ref, h3) \<Rightarrow>
      case assign_column percent_column merged_ref h3 of
        None \<Rightarrow> None
      | Some h4 \<Rightarrow> Some (merged_ref, h4))"

text \<open>Lines 88 to 102, the body of \<^verbatim>\<open>generate_percentage_map\<close> up to the figure.\<close>

definition map_chart :: "string \<Rightarrow> nat \<Rightarrow> store \<Rightarrow> (nat \<times> store) option" where
  "map_chart status_type filtered_df h0 =
     (case read_shipments h0 filtered_df of
        None \<Rightarrow> None
      | Some df \<Rightarrow>
      case new_frame (Totals (total_shipments df)) h0 of (total_shipments_ref, h1) \<Rightarrow>
      case new_frame (Sizes (status_shipments df status_type)) h1 of (status_shipments_ref, h2) \<Rightarrow>
      case new_frame
             (LeftJoined (merge_left (total_shipments df) (status_shipments df status_type)))
             h2 of (merged_ref, h3) \<Rightarrow>
      case assign_column incident_column merged_ref h3 of
        None \<Rightarrow> None
      | Some h4 \<Rightarrow>
      case assign_column percent_incident_column merged_ref h4 of
        None \<Rightarrow> None
      | Some h5 \<Rightarrow> Some (merged_ref, h5))"

text \<open>
  Lines 38 to 118: the filter, the metrics (numbers and a string, no objects of the store),
  the frame of the Missing shipments, the bar chart, the trend and the map. The result is
  the dashboard read from the frames the figures are built from, and the last store.
\<close>

definition run_dashboard ::
  "string option \<Rightarrow> breakdown_type \<Rightarrow> string \<Rightarrow> nat \<Rightarrow> store \<Rightarrow> (dashboard \<times> store) option"
  where
  "run_dashboard selected_driver breakdown map_status_type shipments_df h0 =
     (case bind_filtered selected_driver shipments_df h0 of
        None \<Rightarrow> None
      | Some (filtered, h1) \<Rightarrow>
      case read_shipments h1 filtered of
        None \<Rightarrow> None
      | Some df \<Rightarrow>
      case new_frame (Shipments (missing_shipments df)) h1 of (missing_shipments_ref, h2) \<Rightarrow>
      case bar_chart breakdown filtered h2 of
        None \<Rightarrow> None
      | Some (merged_ref, h3) \<Rightarrow>
      case new_frame (Trend (trend_data df)) h3 of (trend_data_ref, h4) \<Rightarrow>
      case map_chart map_status_type filtered h4 of
        None \<Rightarrow> None
      | Some (map_ref, h5) \<Rightarrow>
      case (frame_at h5 filtered, frame_at h5 merged_ref, frame_at h5 trend_data_ref,
            frame_at h5 map_ref) of
        (Some (Shipments fdf), Some (Bars bars), Some (Trend trend), Some (MapRows rows)) \<Rightarrow>
          Some (\<lparr>metric_total_missing = total_missing fdf,
                 metric_avg_transit = avg_transit_text fdf,
                 metric_total_damaged = damaged_count fdf,
                 status_fig = map status fdf,
                 comparison_fig = bars,
                 trend_fig = trend,
                 map_fig = rows\<rparr>, h5)
      | _ \<Rightarrow> None)"

section \<open>Example data\<close>

definition csv_row ::
  "string \<Rightarrow> string option \<Rightarrow> string option \<Rightarrow> string \<Rightarrow> int option \<Rightarrow> int option \<Rightarrow> shipment"
  where
  "csv_row driver vehicle dest st pickup delivery =
     \<lparr>driver_id = Some driver, vehicle_id = vehicle, route_id = Some ''R1'', destination = dest,
      status = Some st, pickup_time = pickup, delivery_time = delivery, delivery_date = None,
      dest_lat = None, dest_lon = None\<rparr>"

text \<open>
  Ten shipments to Chicago, three of them Missing, and one Missing shipment to Boston,
  which has no coordinates. A day has 86400000000000 nanoseconds.
\<close>

definition chicago_csv :: shipments where
  "chicago_csv =
     replicate 3 (csv_row ''D1'' (Some ''V1'') (Some ''Chicago'') ''Missing''
                    (Some 0) (Some 86400000000000))
     @ replicate 7 (csv_row ''D2'' (Some ''V2'') (Some ''Chicago'') ''Delivered''
                      (Some 0) (Some 43200000000000))
     @ [csv_row ''D2'' (Some ''V2'') (Some ''Boston'') ''Missing''
          (Some 0) (Some 129600000000000)]"

text \<open>
  A Missing shipment with no vehicle and no delivery time; a shipment to Boston followed by
  one with no destination; a single Delivered shipment.
\<close>

definition no_vehicle_csv :: shipments where
  "no_vehicle_csv = [csv_row ''D1'' None (Some ''Chicago'') ''Missing'' (Some 0) None]"

definition no_destination_csv :: shipments where
  "no_destination_csv =
     [csv_row ''D1'' (Some ''V1'') (Some ''Boston'') ''Missing'' None None,
      csv_row ''D1'' (Some ''V1'') None ''Delivered'' None None]"


section \<open>Properties of the enrichment\<close>

lemma coord_of_both: "coord_of ''lat'' x = None \<longleftrightarrow> coord_of ''lon'' x = None"
  by (cases x) (simp_all add: coord_of_def city_coords_def)

lemma enrich_destination:
  "r \<in> set (enrich b df) \<Longrightarrow>
   dest_lat r = coord_of ''lat'' (destination r) \<and> dest_lon r = coord_of ''lon'' (destination r)"
  by (auto simp: enrich_def add_dest_lon_def add_dest_lat_def add_delivery_date_def)

lemma enrich_map:
  "enrich b df =
     map (\<lambda>r. (if b then r else r\<lparr>delivery_date := map_option dt_date (delivery_time r)\<rparr>)
               \<lparr>dest_lat := coord_of ''lat'' (destination r),
                dest_lon := coord_of ''lon'' (destination r)\<rparr>) df"
  by (simp add: enrich_def add_dest_lon_def add_dest_lat_def add_delivery_date_def comp_def)

lemma coord_of_lat_None: "coord_of ''lat'' (Some d) = None \<longleftrightarrow> city_coords d = None"
  by (simp add: coord_of_def city_coords_def)

lemma chicago_enriched:
  "enrich False chicago_csv =
     replicate 3 \<lparr>driver_id = Some ''D1'', vehicle_id = Some ''V1'', route_id = Some ''R1'',
        destination = Some ''Chicago'', status = Some ''Missing'', pickup_time = Some 0,
        delivery_time = Some 86400000000000, delivery_date = Some 1,
        dest_lat = Some 41.8781, dest_lon = Some (- 87.6298)\<rparr>
     @ replicate 7 \<lparr>driver_id = Some ''D2'', vehicle_id = Some ''V2'', route_id = Some ''R1'',
        destination = Some ''Chicago'', status = Some ''Delivered'', pickup_time = Some 0,
        delivery_time = Some 43200000000000, delivery_date = Some 0,
        dest_lat = Some 41.8781, dest_lon = Some (- 87.6298)\<rparr>
     @ [\<lparr>driver_id = Some ''D2'', vehicle_id = Some ''V2'', route_id = Some ''R1'',
        destination = Some ''Boston'', status = Some ''Missing'', pickup_time = Some 0,
        delivery_time = Some 129600000000000, delivery_date = Some 1,
        dest_lat = None, dest_lon = None\<rparr>]"
  by (simp add: enrich_def add_dest_lon_def add_dest_lat_def add_delivery_date_def chicago_csv_def
        csv_row_def coord_of_def city_coords_def dt_date_def)

text \<open>
  C6. After the enrichment every shipment has both derived coordinates or neither:
  \<open>dest_lat\<close> is null exactly when \<open>dest_lon\<close> is.
\<close>

theorem enrich_coords_both_or_neither:
  "r \<in> set (enrich has_delivery_date df) \<Longrightarrow> (dest_lat r = None) = (dest_lon r = None)"
  using enrich_destination [of r has_delivery_date df] coord_of_both [of "destination r"]
  by simp

theorem enrich_coords_both_or_neither_witness:
  "hd (enrich False chicago_csv) \<in> set (enrich False chicago_csv)
   \<and> (dest_lat (hd (enrich False chicago_csv)) = None)
       = (dest_lon (hd (enrich False chicago_csv)) = None)
   \<and> dest_lat (hd (enrich False chicago_csv)) = Some 41.8781
   \<and> dest_lat (last (enrich False chicago_csv)) = None
   \<and> dest_lon (last (enrich False chicago_csv)) = None"
proof -
  have mem: "hd (enrich False chicago_csv) \<in> set (enrich False chicago_csv)"
    by (simp add: enrich_def add_dest_lon_def add_dest_lat_def add_delivery_date_def chicago_csv_def)
  have lat: "dest_lat (hd (enrich False chicago_csv)) = Some 41.8781"
    by (simp add: enrich_def add_dest_lon_def add_dest_lat_def add_delivery_date_def chicago_csv_def
        csv_row_def coord_of_def city_coords_def numeral_3_eq_3)
  have lst: "dest_lat (last (enrich False chicago_csv)) = None \<and> dest_lon (last (enrich False chicago_csv)) = None"
    by (simp add: enrich_def add_dest_lon_def add_dest_lat_def add_delivery_date_def chicago_csv_def
        csv_row_def coord_of_def city_coords_def)
  from enrich_coords_both_or_neither [OF mem] mem lat lst show ?thesis by blast
qed

section \<open>Groups\<close>

lemma set_map_filter_key:
  "set (List.map_filter key df) = {k. \<exists>r\<in>set df. key r = Some k}"
  by (induction df) (auto simp: map_filter_simps split: option.splits)

lemma set_group_keys: "set (group_keys key df) = {k. \<exists>r\<in>set df. key r = Some k}"
  by (simp add: group_keys_def set_map_filter_key)

lemma distinct_group_keys: "distinct (group_keys key df)"
  by (simp add: group_keys_def)

lemma filter_eq_distinct:
  "distinct xs \<Longrightarrow> filter (\<lambda>y. y = x) xs = (if x \<in> set xs then [x] else [])"
  by (induction xs) auto

lemma group_rows_empty_iff:
  "group_rows key k df = [] \<longleftrightarrow> k \<notin> set (group_keys key df)"
  by (auto simp: group_rows_def set_group_keys filter_empty_conv)

lemma filter_groupby_size:
  "filter (\<lambda>(k', n). k' = k) (groupby_size key df) =
     (if k \<in> set (group_keys key df) then [(k, length (group_rows key k df))] else [])"
proof -
  have "filter (\<lambda>(k', n). k' = k) (groupby_size key df) =
        map (\<lambda>k. (k, length (group_rows key k df))) (filter (\<lambda>k'. k' = k) (group_keys key df))"
    by (simp add: groupby_size_def filter_map comp_def)
  then show ?thesis
    by (simp add: filter_eq_distinct [OF distinct_group_keys])
qed

lemma sum_group_sizes:
  assumes "finite S"
  shows "(\<Sum>k\<in>S. length (group_rows key k df)) = length (filter (\<lambda>r. key r \<in> Some ` S) df)"
proof (induction df)
  case Nil
  then show ?case by (simp add: group_rows_def)
next
  case (Cons r df)
  have step: "(\<Sum>k\<in>S. length (group_rows key k (r # df))) =
        (\<Sum>k\<in>S. (if key r = Some k then 1 else 0)) + (\<Sum>k\<in>S. length (group_rows key k df))"
    by (simp add: group_rows_def sum.distrib [symmetric] cong: sum.cong if_cong)
       (rule sum.cong, auto)
  have delta: "(\<Sum>k\<in>S. (if key r = Some k then 1 else 0 :: nat)) = (if key r \<in> Some ` S then 1 else 0)"
  proof (cases "key r")
    case None
    then show ?thesis by auto
  next
    case (Some k0)
    then show ?thesis using assms by (auto simp: sum.delta')
  qed
  show ?case unfolding step delta Cons.IH by simp
qed

lemma distinct_sum_list_filter:
  "distinct xs \<Longrightarrow> sum_list (map f (filter P xs)) = (\<Sum>x\<in>{x \<in> set xs. P x}. f x)"
  by (simp add: sum_list_distinct_conv_sum_set)

lemma both_keys_Some:
  "both_keys k1 k2 r = Some (a, b) \<longleftrightarrow> k1 r = Some a \<and> k2 r = Some b"
  by (auto simp: both_keys_def split: option.splits)

section \<open>Rounding\<close>

lemma rint_lower: "of_int a \<le> x \<Longrightarrow> a \<le> rint x"
proof -
  assume "of_int a \<le> x"
  then have "a \<le> \<lfloor>x\<rfloor>" by (simp add: le_floor_iff)
  then show ?thesis by (auto simp: rint_def Let_def)
qed

lemma rint_upper: "x \<le> of_int b \<Longrightarrow> rint x \<le> b"
proof -
  assume le: "x \<le> of_int b"
  show ?thesis
  proof (cases "x = of_int \<lfloor>x\<rfloor>")
    case True
    then have "rint x = \<lfloor>x\<rfloor>" by (simp add: rint_def)
    moreover from le have "\<lfloor>x\<rfloor> \<le> b" by (metis floor_mono floor_of_int)
    ultimately show ?thesis by simp
  next
    case False
    with of_int_floor_le [of x] have "of_int \<lfloor>x\<rfloor> < x" by linarith
    with le have "(of_int \<lfloor>x\<rfloor> :: rat) < of_int b" by simp
    then have "\<lfloor>x\<rfloor> < b" by (simp only: of_int_less_iff)
    moreover have "rint x \<le> \<lfloor>x\<rfloor> + 1" by (simp add: rint_def Let_def)
    ultimately show ?thesis by simp
  qed
qed

lemma round2_bounds:
  assumes "0 \<le> x" "x \<le> 100"
  shows "0 \<le> round2 x \<and> round2 x \<le> 100"
proof -
  from assms have "of_int 0 \<le> x * 100" "x * 100 \<le> of_int 10000" by simp_all
  then have "0 \<le> rint (x * 100)" "rint (x * 100) \<le> 10000"
    by (simp_all only: rint_lower rint_upper)
  then have "(0::rat) \<le> of_int (rint (x * 100))" "(of_int (rint (x * 100))::rat) \<le> 10000"
    by (simp_all add: of_int_le_iff [where 'a = rat, of _ 10000, simplified])
  then show ?thesis by (simp add: round2_def)
qed



section \<open>The table of the map\<close>

lemma merge_left_row:
  "(case filter (\<lambda>(d, n). d = k) (groupby_size key df) of
      [] \<Rightarrow> [(l, None)]
    | m # ms \<Rightarrow> map (\<lambda>(d, n). (l, Some n)) (m # ms)) =
   [(l, if k \<in> set (group_keys key df) then Some (length (group_rows key k df)) else None)]"
  by (simp add: filter_groupby_size)

lemma fillna_group_size:
  "fillna 0 (if k \<in> set (group_keys key df) then Some (length (group_rows key k df)) else None)
     = of_nat (length (group_rows key k df))"
  using group_rows_empty_iff [of key k df] by (auto simp: fillna_def)

lemma generate_percentage_map_eq:
  "generate_percentage_map fdf st =
     map (\<lambda>d. \<lparr>m_destination = d,
               m_total = length (group_rows destination d fdf),
               m_lat = first_valid (map dest_lat (group_rows destination d fdf)),
               m_lon = first_valid (map dest_lon (group_rows destination d fdf)),
               incident = of_nat (length (group_rows destination d (with_status st fdf))),
               percent_incident =
                 round2 (of_nat (length (group_rows destination d (with_status st fdf)))
                         / of_nat (length (group_rows destination d fdf)) * 100)\<rparr>)
       (group_keys destination fdf)"
proof -
  have "merge_left (total_shipments fdf) (status_shipments fdf st) =
        map (\<lambda>d. (\<lparr>t_destination = d, t_total = length (group_rows destination d fdf),
                    t_lat = first_valid (map dest_lat (group_rows destination d fdf)),
                    t_lon = first_valid (map dest_lon (group_rows destination d fdf))\<rparr>,
                  if d \<in> set (group_keys destination (with_status st fdf))
                  then Some (length (group_rows destination d (with_status st fdf))) else None))
          (group_keys destination fdf)"
    unfolding merge_left_def total_shipments_def status_shipments_def
    by (induction "group_keys destination fdf") (simp_all add: merge_left_row Let_def map_concat comp_def)
  then show ?thesis
    unfolding generate_percentage_map_def
    by (simp add: comp_def fill_incident_def add_percent_incident_def fillna_group_size)
qed


lemma group_with_status_le:
  "length (group_rows key k (with_status st fdf)) \<le> length (group_rows key k fdf)"
proof -
  have "group_rows key k (with_status st fdf) = filter (\<lambda>r. status r = Some st) (group_rows key k fdf)"
    by (simp add: group_rows_def with_status_def conj_commute)
  then show ?thesis by simp
qed


lemma chicago_map:
  "generate_percentage_map (enrich False chicago_csv) ''Missing'' =
     [\<lparr>m_destination = ''Boston'', m_total = 1, m_lat = None, m_lon = None,
        incident = 1, percent_incident = 100\<rparr>,
      \<lparr>m_destination = ''Chicago'', m_total = 10, m_lat = Some 41.8781,
        m_lon = Some (- 87.6298), incident = 3, percent_incident = 30\<rparr>]"
  by code_simp



text \<open>
  C7. Every row of the map table whose total is positive has a percentage between 0 and
  100.
\<close>

theorem percent_incident_in_range:
  assumes "row \<in> set (generate_percentage_map filtered_df status_type)" and "0 < m_total row"
  shows "0 \<le> percent_incident row \<and> percent_incident row \<le> 100"
proof -
  from assms(1) obtain d where d: "d \<in> set (group_keys destination filtered_df)"
    and total: "m_total row = length (group_rows destination d filtered_df)"
    and pct: "percent_incident row =
        round2 (of_nat (length (group_rows destination d (with_status status_type filtered_df)))
                / of_nat (length (group_rows destination d filtered_df)) * 100)"
    by (auto simp: generate_percentage_map_eq)
  let ?n = "length (group_rows destination d (with_status status_type filtered_df))"
  let ?t = "length (group_rows destination d filtered_df)"
  from assms(2) total have pos: "0 < ?t" by simp
  have "?n \<le> ?t" by (rule group_with_status_le)
  then have "(of_nat ?n :: rat) \<le> of_nat ?t" by (simp only: of_nat_le_iff)
  with pos have "(of_nat ?n :: rat) / of_nat ?t \<le> 1" by (simp add: divide_le_eq_1)
  from mult_right_mono [OF this, of 100]
  have "(of_nat ?n :: rat) / of_nat ?t * 100 \<le> 100" by simp
  moreover have "0 \<le> (of_nat ?n :: rat) / of_nat ?t * 100" by simp
  ultimately show ?thesis unfolding pct by (simp only: round2_bounds)
qed

theorem percent_incident_in_range_witness:
  "0 < m_total (hd (generate_percentage_map (enrich False chicago_csv) ''Missing''))
   \<and> 0 \<le> percent_incident (hd (generate_percentage_map (enrich False chicago_csv) ''Missing''))
   \<and> percent_incident (hd (generate_percentage_map (enrich False chicago_csv) ''Missing'')) \<le> 100"
proof -
  let ?tbl = "generate_percentage_map (enrich False chicago_csv) ''Missing''"
  have mem: "hd ?tbl \<in> set ?tbl" and pos: "0 < m_total (hd ?tbl)"
    by (simp_all add: chicago_map)
  from percent_incident_in_range [OF mem pos] pos show ?thesis by simp
qed






section \<open>The table of the bar chart\<close>

lemma merge_inner_rows:
  assumes "\<forall>ks\<in>set kss. fst ks \<in> set (group_keys key df)"
  shows "merge_inner (map (\<lambda>ks. (ks, f ks)) kss) (groupby_size key df) =
         map (\<lambda>ks. (fst ks, snd ks, f ks, length (group_rows key (fst ks) df))) kss"
  using assms
proof (induction kss)
  case Nil
  then show ?case by (simp add: merge_inner_def)
next
  case (Cons ks kss)
  obtain k s where ks: "ks = (k, s)" by (cases ks)
  with Cons.prems have "k \<in> set (group_keys key df)" by simp
  then have "filter (\<lambda>(k', t). k' = k) (groupby_size key df) = [(k, length (group_rows key k df))]"
    by (simp add: filter_groupby_size)
  moreover from Cons have "merge_inner (map (\<lambda>ks. (ks, f ks)) kss) (groupby_size key df) =
         map (\<lambda>ks. (fst ks, snd ks, f ks, length (group_rows key (fst ks) df))) kss"
    by simp
  ultimately show ?case
    by (simp add: merge_inner_def ks)
qed

lemma incident_keys_in_total:
  "ks \<in> set (group_keys (both_keys (column b) status) (incidents fdf)) \<Longrightarrow>
   fst ks \<in> set (group_keys (column b) fdf)"
  by (cases ks) (auto simp: set_group_keys both_keys_Some incidents_def)

lemma merged_eq:
  "merged b fdf =
     map (\<lambda>ks. \<lparr>bar_group = fst ks, bar_status = snd ks,
                bar_count = length (group_rows (both_keys (column b) status) ks (incidents fdf)),
                bar_total = length (group_rows (column b) (fst ks) fdf),
                percent = round2
                  (of_nat (length (group_rows (both_keys (column b) status) ks (incidents fdf)))
                   / of_nat (length (group_rows (column b) (fst ks) fdf)) * 100)\<rparr>)
       (group_keys (both_keys (column b) status) (incidents fdf))"
proof -
  have "merge_inner (incident_by_group b fdf) (total_by_group b fdf) =
        map (\<lambda>ks. (fst ks, snd ks,
                   length (group_rows (both_keys (column b) status) ks (incidents fdf)),
                   length (group_rows (column b) (fst ks) fdf)))
          (group_keys (both_keys (column b) status) (incidents fdf))"
    unfolding incident_by_group_def total_by_group_def groupby_size_def [of "both_keys (column b) status"]
    by (rule merge_inner_rows) (simp add: incident_keys_in_total)
  then show ?thesis
    by (simp add: merged_def add_percent_def comp_def)
qed

lemma incident_count_sum:
  assumes s: "s \<in> {''Missing'', ''Damaged''}"
  shows "sum_list (map (\<lambda>ks. length (group_rows (both_keys (column b) status) ks (incidents fdf)))
           (filter (\<lambda>ks. snd ks = s) (group_keys (both_keys (column b) status) (incidents fdf))))
         = length (filter (\<lambda>r. status r = Some s \<and> column b r \<noteq> None) fdf)"
proof -
  let ?K = "both_keys (column b) status"
  let ?S = "{ks \<in> set (group_keys ?K (incidents fdf)). snd ks = s}"
  have "sum_list (map (\<lambda>ks. length (group_rows ?K ks (incidents fdf)))
           (filter (\<lambda>ks. snd ks = s) (group_keys ?K (incidents fdf))))
        = (\<Sum>ks\<in>?S. length (group_rows ?K ks (incidents fdf)))"
    by (rule distinct_sum_list_filter) (rule distinct_group_keys)
  also have "\<dots> = length (filter (\<lambda>r. ?K r \<in> Some ` ?S) (incidents fdf))"
    by (rule sum_group_sizes) simp
  also have "filter (\<lambda>r. ?K r \<in> Some ` ?S) (incidents fdf)
           = filter (\<lambda>r. status r = Some s \<and> column b r \<noteq> None) (incidents fdf)"
    by (rule filter_cong [OF refl])
       (auto simp: set_group_keys both_keys_Some image_iff both_keys_def split: option.splits)
  also have "\<dots> = filter (\<lambda>r. status r = Some s \<and> column b r \<noteq> None) fdf"
    using s by (auto simp: incidents_def intro: filter_cong)
  finally show ?thesis .
qed

text \<open>
  C2, as the code has it. For Missing and for Damaged, the counts of that status in the
  grouped incident table (\<open>incident_by_group\<close>, and \<open>merged\<close>, which has the same rows) add
  up to the number of filtered shipments of that status whose grouping key is not null: a
  shipment with a null key belongs to no group. So the sum is the total of that status
  when no filtered shipment of the status has a null key.
\<close>

theorem incident_counts_sum:
  assumes "s \<in> {''Missing'', ''Damaged''}"
  shows "incident_sum s (merged breakdown filtered)
           = length (filter (\<lambda>r. status r = Some s \<and> column breakdown r \<noteq> None) filtered)
       \<and> sum_list (map snd (filter (\<lambda>row. snd (fst row) = s) (incident_by_group breakdown filtered)))
           = length (filter (\<lambda>r. status r = Some s \<and> column breakdown r \<noteq> None) filtered)
       \<and> ((\<forall>r\<in>set (with_status s filtered). column breakdown r \<noteq> None) \<longrightarrow>
            incident_sum s (merged breakdown filtered) = length (with_status s filtered))"
proof -
  let ?n = "length (filter (\<lambda>r. status r = Some s \<and> column breakdown r \<noteq> None) filtered)"
  let ?K = "both_keys (column breakdown) status"
  let ?sum = "sum_list (map (\<lambda>ks. length (group_rows ?K ks (incidents filtered)))
           (filter (\<lambda>ks. snd ks = s) (group_keys ?K (incidents filtered))))"
  have "incident_sum s (merged breakdown filtered) = ?sum"
    unfolding incident_sum_def merged_eq by (simp add: filter_map comp_def)
  then have a: "incident_sum s (merged breakdown filtered) = ?n"
    by (simp only: incident_count_sum [OF assms])
  have "sum_list (map snd (filter (\<lambda>row. snd (fst row) = s) (incident_by_group breakdown filtered)))
      = ?sum"
    unfolding incident_by_group_def groupby_size_def by (simp add: filter_map comp_def)
  then have b: "sum_list (map snd (filter (\<lambda>row. snd (fst row) = s)
      (incident_by_group breakdown filtered))) = ?n"
    by (simp only: incident_count_sum [OF assms])
  have c: "?n = length (with_status s filtered)"
    if "\<forall>r\<in>set (with_status s filtered). column breakdown r \<noteq> None"
  proof -
    from that have "filter (\<lambda>r. status r = Some s \<and> column breakdown r \<noteq> None) filtered
        = with_status s filtered"
      unfolding with_status_def by (auto intro: filter_cong)
    then show ?thesis by simp
  qed
  from a b c show ?thesis by (simp del: not_None_eq)
qed

theorem incident_counts_sum_counterexample:
  "incident_by_group Vehicle_id (filter_driver (Some ''All'') (enrich False no_vehicle_csv)) = []
   \<and> incident_sum ''Missing''
        (merged Vehicle_id (filter_driver (Some ''All'') (enrich False no_vehicle_csv))) = 0
   \<and> total_missing (filter_driver (Some ''All'') (enrich False no_vehicle_csv)) = 1"
  by code_simp

theorem incident_counts_sum_witness:
  "incident_sum ''Missing'' (merged Driver_id (enrich False chicago_csv)) = 4
   \<and> sum_list (map snd (filter (\<lambda>row. snd (fst row) = ''Missing'')
        (incident_by_group Driver_id (enrich False chicago_csv)))) = 4
   \<and> total_missing (enrich False chicago_csv) = 4"
proof -
  have s: "''Missing'' \<in> {''Missing'', ''Damaged''}" by simp
  have n: "length (filter (\<lambda>r. status r = Some ''Missing'' \<and> column Driver_id r \<noteq> None)
             (enrich False chicago_csv)) = 4"
    by (simp add: chicago_enriched)
  have t: "total_missing (enrich False chicago_csv) = 4"
    by (simp add: chicago_enriched total_missing_def with_status_def)
  from incident_counts_sum [OF s, of Driver_id "enrich False chicago_csv"] n t
  show ?thesis by (simp del: not_None_eq)
qed




section \<open>The average transit time\<close>








section \<open>The driver filter\<close>




section \<open>The warning for missing coordinates\<close>

lemma set_unique: "set (unique xs) = set xs"
proof (induction xs rule: unique.induct)
  case 1
  then show ?case by simp
next
  case (2 x xs)
  then show ?case by auto
qed

lemma distinct_unique: "distinct (unique xs)"
proof (induction xs rule: unique.induct)
  case 1
  then show ?case by simp
next
  case (2 x xs)
  then show ?case by (simp add: set_unique)
qed

lemma unique_map_Some: "unique (map Some xs) = map Some (unique xs)"
proof (induction xs rule: unique.induct)
  case 1
  then show ?case by simp
next
  case (2 x xs)
  then show ?case by (simp add: filter_map comp_def)
qed

lemma those_map_Some: "those (map Some xs) = Some xs"
  by (induction xs) simp_all

lemma missing_coords_enrich:
  "missing_coords (enrich b csv) =
     unique (filter (\<lambda>x. coord_of ''lat'' x = None) (map destination csv))"
  by (cases b) (simp_all add: missing_coords_def enrich_map filter_map comp_def)

text \<open>
  When no shipment has a null destination, the warning is shown once if some destination
  is no key of \<open>city_coords\<close> and not at all otherwise, and its message lists each such
  destination once, in the order of first appearance, separated by commas.
\<close>

lemma warn_missing_coords_lists_unmapped:
  assumes "\<forall>r\<in>set csv. destination r \<noteq> None"
  shows "\<exists>names. distinct names
           \<and> set names = {d. (\<exists>r\<in>set csv. destination r = Some d) \<and> city_coords d = None}
           \<and> warn_missing_coords (enrich has_delivery_date csv) =
               Inr (if names = [] then []
                    else [''Missing coordinates for: '' @ join '', '' names])"
proof -
  define ds where "ds = map (\<lambda>r. the (destination r)) csv"
  define names where "names = unique (filter (\<lambda>d. city_coords d = None) ds)"
  from assms have dests: "map destination csv = map Some ds"
    unfolding ds_def by (induction csv) auto
  have "filter (\<lambda>x. coord_of ''lat'' x = None) (map Some ds)
        = map Some (filter (\<lambda>d. city_coords d = None) ds)"
    by (simp add: filter_map comp_def coord_of_lat_None)
  then have mc: "missing_coords (enrich has_delivery_date csv) = map Some names"
    by (simp add: missing_coords_enrich dests names_def unique_map_Some)
  have "set ds = {d. \<exists>r\<in>set csv. destination r = Some d}"
    using assms unfolding ds_def by force
  then have s: "set names = {d. (\<exists>r\<in>set csv. destination r = Some d) \<and> city_coords d = None}"
    by (auto simp: names_def set_unique)
  have d: "distinct names"
    by (simp add: names_def distinct_unique)
  have w: "warn_missing_coords (enrich has_delivery_date csv) =
               Inr (if names = [] then []
                    else [''Missing coordinates for: '' @ join '', '' names])"
    by (simp add: warn_missing_coords_def mc str_join_def those_map_Some)
  from d s w show ?thesis by blast
qed

lemma distinct_set_singleton: "distinct xs \<Longrightarrow> set xs = {x} \<Longrightarrow> xs = [x]"
proof (cases xs)
  case Nil
  assume "set xs = {x}"
  with Nil show ?thesis by simp
next
  case (Cons y ys)
  assume d: "distinct xs" and s: "set xs = {x}"
  from s Cons have y: "y = x" by auto
  from d s Cons y have "set ys \<subseteq> {x}" "x \<notin> set ys" by auto
  then have "ys = []" by (cases ys) auto
  with Cons y show ?thesis by simp
qed

lemma unmapped_set_conv:
  "{d. (\<exists>r\<in>set csv. destination r = Some d) \<and> city_coords d = None}
     = set (filter (\<lambda>d. city_coords d = None) (List.map_filter destination csv))"
  by (simp add: set_map_filter_key)

lemma warn_missing_coords_chicago:
  "list_all (\<lambda>r. destination r \<noteq> None) chicago_csv
   \<and> warn_missing_coords (enrich False chicago_csv) = Inr [''Missing coordinates for: Boston'']"
proof -
  have all: "list_all (\<lambda>r. destination r \<noteq> None) chicago_csv"
    by code_simp
  then have nonnull: "\<forall>r\<in>set chicago_csv. destination r \<noteq> None"
    by (simp only: list_all_iff)
  have "remdups (filter (\<lambda>d. city_coords d = None) (List.map_filter destination chicago_csv))
      = [''Boston'']"
    by code_simp
  then have "set (filter (\<lambda>d. city_coords d = None) (List.map_filter destination chicago_csv))
      = {''Boston''}"
    by (metis set_remdups list.simps(15) empty_set)
  then have unmapped:
    "{d. (\<exists>r\<in>set chicago_csv. destination r = Some d) \<and> city_coords d = None} = {''Boston''}"
    by (simp only: unmapped_set_conv)
  from warn_missing_coords_lists_unmapped [OF nonnull, of False]
  obtain names where "distinct names" and "set names = {''Boston''}"
    and w: "warn_missing_coords (enrich False chicago_csv) =
               Inr (if names = [] then []
                    else [''Missing coordinates for: '' @ join '', '' names])"
    unfolding unmapped by blast
  then have "names = [''Boston'']" by (simp only: distinct_set_singleton)
  with w all show ?thesis by simp
qed

text \<open>
  C9. The warning is to be shown whenever some shipment's destination is no key of
  \<open>city_coords\<close>. It is not when, besides, some shipment has a null destination: the null
  cell has no latitude either, so it is one of \<open>missing_coords\<close>, and \<^verbatim>\<open>', '.join\<close> raises
  \<^verbatim>\<open>TypeError\<close> on it before \<^verbatim>\<open>st.warning\<close> is reached. Here the table has a shipment to
  Boston, which has no coordinates, and a shipment with no destination.
\<close>

theorem warn_missing_coords_null_destination:
  "map destination no_destination_csv = [Some ''Boston'', None]
   \<and> city_coords ''Boston'' = None
   \<and> missing_coords (enrich False no_destination_csv) = [Some ''Boston'', None]
   \<and> warn_missing_coords (enrich False no_destination_csv) = Inl TypeError"
  by code_simp

section \<open>The shipments table is not written to\<close>

lemma frame_at_old: "a < length h \<Longrightarrow> frame_at (h @ fs) a = frame_at h a"
  by (simp add: frame_at_def nth_append)

lemma frame_at_new: "frame_at (h @ f # fs) (length h) = Some f"
  by (simp add: frame_at_def nth_append)

lemma read_shipments_old: "read_shipments h a = Some df \<Longrightarrow> read_shipments (h @ fs) a = Some df"
  by (auto simp: read_shipments_def frame_at_def nth_append split: if_splits)

lemma read_shipments_new: "read_shipments (h @ Shipments df # fs) (length h) = Some df"
  by (simp add: read_shipments_def frame_at_new)

lemma read_shipments_frame_at:
  "read_shipments h a = Some df \<longleftrightarrow> frame_at h a = Some (Shipments df)"
  by (auto simp: read_shipments_def split: option.splits frame.splits)

lemma assign_column_new:
  "g f = Some f' \<Longrightarrow> assign_column g (length h) (h @ [f]) = Some (h @ [f'])"
  by (simp add: assign_column_def frame_at_new)

lemma load_shipments_eq:
  "load_shipments has_delivery_date csv h0 =
     Some (length h0, h0 @ [Shipments (enrich has_delivery_date csv)])"
  by (simp add: load_shipments_def new_frame_def assign_column_new enrich_def)

lemma bind_filtered_eq:
  assumes "read_shipments h0 a = Some df"
  shows "bind_filtered sel a h0 =
     Some (if sel \<noteq> Some ''All''
           then (Suc (length h0),
                 h0 @ [Shipments df,
                       Shipments (filter (\<lambda>r. driver_id r \<noteq> None \<and> driver_id r = sel) df)])
           else (length h0, h0 @ [Shipments df]))"
proof -
  from assms have "frame_at h0 a = Some (Shipments df)"
    by (simp add: read_shipments_frame_at)
  then show ?thesis
    by (simp add: bind_filtered_def new_frame_def read_shipments_new del: not_None_eq)
qed

lemma bar_chart_eq:
  assumes "read_shipments h filtered = Some df"
  shows "bar_chart b filtered h =
     Some (Suc (Suc (length h)),
           h @ [Sizes (total_by_group b df), Incidents (incident_by_group b df),
                Bars (merged b df)])"
proof -
  let ?h2 = "h @ [Sizes (total_by_group b df), Incidents (incident_by_group b df)]"
  let ?j = "Joined (merge_inner (incident_by_group b df) (total_by_group b df))"
  have "assign_column percent_column (length ?h2) (?h2 @ [?j]) = Some (?h2 @ [Bars (merged b df)])"
    by (rule assign_column_new) (simp add: merged_def)
  then show ?thesis
    using assms by (simp add: bar_chart_def new_frame_def)
qed

lemma map_chart_eq:
  assumes "read_shipments h filtered_df = Some df"
  shows "map_chart st filtered_df h =
     Some (Suc (Suc (length h)),
           h @ [Totals (total_shipments df), Sizes (status_shipments df st),
                MapRows (generate_percentage_map df st)])"
proof -
  let ?h2 = "h @ [Totals (total_shipments df), Sizes (status_shipments df st)]"
  let ?l = "merge_left (total_shipments df) (status_shipments df st)"
  have a: "assign_column incident_column (length ?h2) (?h2 @ [LeftJoined ?l])
      = Some (?h2 @ [Filled (map fill_incident ?l)])"
    by (rule assign_column_new) simp
  have b: "assign_column percent_incident_column (length ?h2) (?h2 @ [Filled (map fill_incident ?l)])
      = Some (?h2 @ [MapRows (generate_percentage_map df st)])"
    by (rule assign_column_new) (simp add: generate_percentage_map_def)
  from a b show ?thesis
    using assms by (simp add: map_chart_def new_frame_def)
qed

lemma run_dashboard_from:
  assumes b: "bind_filtered sel a h0 = Some (filtered, h1)"
    and r: "read_shipments h1 filtered = Some fdf"
  shows "run_dashboard sel b st a h0 =
     Some (render b st fdf,
           h1 @ [Shipments (missing_shipments fdf),
                 Sizes (total_by_group b fdf), Incidents (incident_by_group b fdf),
                 Bars (merged b fdf), Trend (trend_data fdf),
                 Totals (total_shipments fdf), Sizes (status_shipments fdf st),
                 MapRows (generate_percentage_map fdf st)])"
proof -
  let ?h2 = "h1 @ [Shipments (missing_shipments fdf)]"
  let ?h3 = "?h2 @ [Sizes (total_by_group b fdf), Incidents (incident_by_group b fdf),
                Bars (merged b fdf)]"
  let ?h4 = "?h3 @ [Trend (trend_data fdf)]"
  let ?h5 = "?h4 @ [Totals (total_shipments fdf), Sizes (status_shipments fdf st),
                MapRows (generate_percentage_map fdf st)]"
  from r have lt: "filtered < length h1"
    by (auto simp: read_shipments_def frame_at_def split: if_splits)
  have r2: "read_shipments ?h2 filtered = Some fdf"
    by (rule read_shipments_old [OF r])
  then have bar: "bar_chart b filtered ?h2 = Some (Suc (Suc (length ?h2)), ?h3)"
    by (rule bar_chart_eq)
  have r4: "read_shipments ?h4 filtered = Some fdf"
    using read_shipments_old [OF r, of "[Shipments (missing_shipments fdf),
                 Sizes (total_by_group b fdf), Incidents (incident_by_group b fdf),
                 Bars (merged b fdf), Trend (trend_data fdf)]"] by simp
  then have mp: "map_chart st filtered ?h4 = Some (Suc (Suc (length ?h4)), ?h5)"
    by (rule map_chart_eq)
  have f1: "frame_at ?h5 filtered = Some (Shipments fdf)"
    using r lt by (simp add: read_shipments_frame_at frame_at_def nth_append)
  have f2: "frame_at ?h5 (Suc (Suc (length ?h2))) = Some (Bars (merged b fdf))"
    by (simp add: frame_at_def nth_append)
  have f3: "frame_at ?h5 (length ?h3) = Some (Trend (trend_data fdf))"
    by (simp add: frame_at_def nth_append)
  have f4: "frame_at ?h5 (Suc (Suc (length ?h4))) = Some (MapRows (generate_percentage_map fdf st))"
    by (simp add: frame_at_def nth_append)
  show ?thesis
    unfolding run_dashboard_def b option.case prod.case r new_frame_def bar mp f1 f2 f3 f4
      frame.case render_def
    by simp
qed

text \<open>
  C10. Run on any store in which \<open>shipments_df\<close> refers to a shipments table, the script
  from the driver filter to the map ends, shows the dashboard computed from that table, and
  leaves every object the store had before as it was: the frames it makes are new objects,
  and the columns it assigns are columns of those. In particular \<open>shipments_df\<close> still
  refers to the same table.
\<close>

theorem run_dashboard_keeps_shipments:
  assumes "read_shipments h0 shipments_df = Some df"
  shows "\<exists>h. run_dashboard selected_driver breakdown map_status_type shipments_df h0
               = Some (downstream selected_driver breakdown map_status_type df, h)
           \<and> take (length h0) h = h0
           \<and> read_shipments h shipments_df = Some df"
proof -
  define filtered where
    "filtered = (if selected_driver \<noteq> Some ''All'' then Suc (length h0) else length h0)"
  define cs where
    "cs = (if selected_driver \<noteq> Some ''All''
           then [Shipments df,
                 Shipments (filter (\<lambda>r. driver_id r \<noteq> None \<and> driver_id r = selected_driver) df)]
           else [Shipments df])"
  let ?fdf = "filter_driver selected_driver df"
  have b: "bind_filtered selected_driver shipments_df h0 = Some (filtered, h0 @ cs)"
    by (simp add: bind_filtered_eq [OF assms] filtered_def cs_def del: not_None_eq)
  have r: "read_shipments (h0 @ cs) filtered = Some ?fdf"
    by (simp add: filtered_def cs_def filter_driver_def read_shipments_def frame_at_def nth_append
        del: not_None_eq)
  note run = run_dashboard_from [OF b r, of breakdown map_status_type]
  let ?h = "(h0 @ cs) @ [Shipments (missing_shipments ?fdf),
                 Sizes (total_by_group breakdown ?fdf), Incidents (incident_by_group breakdown ?fdf),
                 Bars (merged breakdown ?fdf), Trend (trend_data ?fdf),
                 Totals (total_shipments ?fdf), Sizes (status_shipments ?fdf map_status_type),
                 MapRows (generate_percentage_map ?fdf map_status_type)]"
  have "take (length h0) ?h = h0" by simp
  moreover have "read_shipments ?h shipments_df = Some df"
    using read_shipments_old [OF assms, of "cs @ [Shipments (missing_shipments ?fdf),
                 Sizes (total_by_group breakdown ?fdf), Incidents (incident_by_group breakdown ?fdf),
                 Bars (merged breakdown ?fdf), Trend (trend_data ?fdf),
                 Totals (total_shipments ?fdf), Sizes (status_shipments ?fdf map_status_type),
                 MapRows (generate_percentage_map ?fdf map_status_type)]"] by simp
  ultimately show ?thesis
    using run by (simp add: downstream_def)
qed

theorem run_dashboard_keeps_shipments_witness:
  "\<exists>h. load_shipments False chicago_csv [] = Some (0, [Shipments (enrich False chicago_csv)])
     \<and> run_dashboard (Some ''D1'') Driver_id ''Missing'' 0 [Shipments (enrich False chicago_csv)]
         = Some (downstream (Some ''D1'') Driver_id ''Missing'' (enrich False chicago_csv), h)
     \<and> take 1 h = [Shipments (enrich False chicago_csv)]
     \<and> read_shipments h 0 = Some (enrich False chicago_csv)"
proof -
  have r: "read_shipments [Shipments (enrich False chicago_csv)] 0 = Some (enrich False chicago_csv)"
    by (simp add: read_shipments_def frame_at_def)
  have l: "load_shipments False chicago_csv [] = Some (0, [Shipments (enrich False chicago_csv)])"
    by (simp add: load_shipments_eq)
  from run_dashboard_keeps_shipments [OF r, of "Some ''D1''" Driver_id "''Missing''"] l
  show ?thesis by simp
qed

end
